theory Spec2Isabelle
  imports Main "HOL-Library.Word"
begin

section \<open>convert\_spv.py: a SPIR-V binary rendered as hexadecimal literals\<close>

text \<open>
  The program is one function and a command-line entry point
  (\<^verbatim>\<open>src/app/convert_spv.py\<close>):
  \<^verbatim>\<open>
  def convert_spv_to_inl(spv_file, inl_file):
      with open(spv_file, 'rb') as f:
          data = f.read()

      with open(inl_file, 'w') as f:
          for i, byte in enumerate(data):
              if i % 12 == 0:
                  f.write('\n    ')
              f.write(f'0x{byte:02x}, ')

  if __name__ == '__main__':
      if len(sys.argv) != 3:
          print(f'Usage: {sys.argv[0]} <input.spv> <output.inl>')
          sys.exit(1)

      convert_spv_to_inl(sys.argv[1], sys.argv[2])
      print(f'Converted {sys.argv[1]} to {sys.argv[2]}')
  \<close>
  The model below follows it line by line. The file system, the standard output and the
  sequence of \<^verbatim>\<open>open\<close> calls are an explicit state that every operation takes and
  returns; a Python exception is a value.
\<close>

subsection \<open>Data\<close>

text \<open>
  An element of a Python \<^verbatim>\<open>bytes\<close> object is an integer from 0 to 255: an 8-bit word. A
  path and a piece of text are strings.
\<close>

type_synonym byte = "8 word"
type_synonym path = string

text \<open>
  The exceptions the program can end with: \<^verbatim>\<open>open\<close> raises a subclass of
  \<^verbatim>\<open>OSError\<close>, \<^verbatim>\<open>sys.exit(n)\<close> raises \<^verbatim>\<open>SystemExit(n)\<close>, and
  \<^verbatim>\<open>sys.argv[0]\<close> on an empty list raises \<^verbatim>\<open>IndexError\<close>.
\<close>

datatype exn = OSError | IndexError | SystemExit nat

text \<open>Every call of \<^verbatim>\<open>open\<close> is recorded, whether it succeeds or not.\<close>

datatype event = OpenRead path | OpenWrite path

text \<open>
  The world the program runs in. \<open>files\<close> maps the path of each regular file to its
  bytes. \<open>may_read\<close> and \<open>may_write\<close> stand for everything else that decides
  whether \<^verbatim>\<open>open\<close> succeeds (permissions, the parent directory of a file to create, a
  path that names a directory). \<open>stdout\<close> is the text printed so far and
  \<open>trace\<close> the \<^verbatim>\<open>open\<close> calls made so far.
\<close>

record world =
  files :: "path \<rightharpoonup> byte list"
  may_read :: "path \<Rightarrow> bool"
  may_write :: "path \<Rightarrow> bool"
  stdout :: string
  trace :: "event list"

type_synonym 'a result = "(exn + 'a) \<times> world"

subsection \<open>The format specification \<^verbatim>\<open>02x\<close>\<close>

text \<open>
  \<^verbatim>\<open>format(n, '02x')\<close> for a non-negative integer: the digits of \<open>n\<close> in base 16,
  lowercase, most significant first, then zeros on the left up to a width of two.
\<close>

definition hex_digit :: "nat \<Rightarrow> char" where
  "hex_digit d = ''0123456789abcdef'' ! d"

fun hex_str :: "nat \<Rightarrow> string" where
  "hex_str n = (if n < 16 then [hex_digit n] else hex_str (n div 16) @ [hex_digit (n mod 16)])"

declare hex_str.simps [simp del]

definition zero_pad :: "nat \<Rightarrow> string \<Rightarrow> string" where
  "zero_pad width s = replicate (width - length s) (CHR ''0'') @ s"

definition format_02x :: "byte \<Rightarrow> string" where
  "format_02x b = zero_pad 2 (hex_str (unat b))"

text \<open>The f-string \<^verbatim>\<open>f'0x{byte:02x}, '\<close>.\<close>

definition token :: "byte \<Rightarrow> string" where
  "token b = ''0x'' @ format_02x b @ '', ''"

subsection \<open>Files\<close>

text \<open>
  A file opened with mode \<^verbatim>\<open>'w'\<close> is a text file: each character written is stored as
  its code. The program writes ASCII characters only, one byte each in every ASCII-based
  encoding; the newline is stored as written (no translation to another line ending).
\<close>

definition encode :: "string \<Rightarrow> byte list" where
  "encode s = map (\<lambda>c. word_of_nat (of_char c)) s"

text \<open>
  \<^verbatim>\<open>open(p, 'rb')\<close> followed by \<^verbatim>\<open>read()\<close>: the bytes of the file, or
  \<^verbatim>\<open>OSError\<close> when the file does not exist or may not be read.
\<close>

definition open_rb :: "path \<Rightarrow> world \<Rightarrow> byte list result" where
  "open_rb p w =
     (let w1 = w\<lparr>trace := trace w @ [OpenRead p]\<rparr>
      in case files w p of
           None \<Rightarrow> (Inl OSError, w1)
         | Some content \<Rightarrow> if may_read w p then (Inr content, w1) else (Inl OSError, w1))"

text \<open>
  \<^verbatim>\<open>open(p, 'w')\<close>: the file is created, or emptied when it exists, or
  \<^verbatim>\<open>OSError\<close> is raised and nothing changes.
\<close>

definition open_w :: "path \<Rightarrow> world \<Rightarrow> unit result" where
  "open_w p w =
     (let w1 = w\<lparr>trace := trace w @ [OpenWrite p]\<rparr>
      in if may_write w p then (Inr (), w1\<lparr>files := (files w1)(p \<mapsto> [])\<rparr>)
         else (Inl OSError, w1))"

text \<open>
  Leaving the \<^verbatim>\<open>with\<close> block closes the file: the text written to the handle is now
  the content of the file. Writing to an open handle is taken to succeed.
\<close>

definition close_w :: "path \<Rightarrow> string \<Rightarrow> world \<Rightarrow> world" where
  "close_w p written w = w\<lparr>files := (files w)(p \<mapsto> encode written)\<rparr>"

subsection \<open>The conversion\<close>

text \<open>
  The loop \<^verbatim>\<open>for i, byte in enumerate(data)\<close>: \<open>i\<close> is the index of the next byte,
  \<open>written\<close> the text written to the handle so far, and each \<^verbatim>\<open>f.write\<close> appends.
\<close>

fun write_loop :: "nat \<Rightarrow> byte list \<Rightarrow> string \<Rightarrow> string" where
  "write_loop i [] written = written"
| "write_loop i (byte # rest) written =
     (let written1 = (if i mod 12 = 0 then written @ ''\<newline>    '' else written);
          written2 = written1 @ token byte
      in write_loop (Suc i) rest written2)"

text \<open>The text the loop writes to a handle that has just been opened.\<close>

definition inl_text :: "byte list \<Rightarrow> string" where
  "inl_text data = write_loop 0 data []"

definition convert_spv_to_inl :: "path \<Rightarrow> path \<Rightarrow> world \<Rightarrow> unit result" where
  "convert_spv_to_inl spv_file inl_file w =
     (case open_rb spv_file w of
        (Inl e, w1) \<Rightarrow> (Inl e, w1)
      | (Inr data, w1) \<Rightarrow>
          (case open_w inl_file w1 of
             (Inl e, w2) \<Rightarrow> (Inl e, w2)
           | (Inr _, w2) \<Rightarrow> (Inr (), close_w inl_file (write_loop 0 data []) w2)))"

subsection \<open>The entry point\<close>

text \<open>\<^verbatim>\<open>print(s)\<close> writes \<open>s\<close> and a newline to the standard output.\<close>

definition print :: "string \<Rightarrow> world \<Rightarrow> world" where
  "print s w = w\<lparr>stdout := stdout w @ s @ ''\<newline>''\<rparr>"

definition main :: "string list \<Rightarrow> world \<Rightarrow> unit result" where
  "main argv w =
     (if length argv \<noteq> 3 then
        (case argv of
           [] \<Rightarrow> (Inl IndexError, w)
         | prog # _ \<Rightarrow>
             (Inl (SystemExit 1), print (''Usage: '' @ prog @ '' <input.spv> <output.inl>'') w))
      else
        (case convert_spv_to_inl (argv ! 1) (argv ! 2) w of
           (Inl e, w1) \<Rightarrow> (Inl e, w1)
         | (Inr _, w1) \<Rightarrow>
             (Inr (), print (''Converted '' @ argv ! 1 @ '' to '' @ argv ! 2) w1)))"

text \<open>
  The exit status of the process: 0 when the script runs to its end, the argument of
  \<^verbatim>\<open>sys.exit\<close>, and 1 for any other exception that nothing catches.
\<close>

fun exit_status :: "exn + unit \<Rightarrow> nat" where
  "exit_status (Inr _) = 0"
| "exit_status (Inl (SystemExit n)) = n"
| "exit_status (Inl _) = 1"

subsection \<open>Reading the specification\<close>

text \<open>
  The definitions of this subsection are not part of the program. They say what the
  specification's words mean, so that the program can be compared with them.

  A token, as the specification describes it: \<^verbatim>\<open>0x\<close>, two lowercase
  hexadecimal digits, a comma and a space. \<open>spec_tokens\<close> scans a text from left to right
  and returns every such token it finds, in order.
\<close>

definition is_lower_hex :: "char \<Rightarrow> bool" where
  "is_lower_hex c = (c \<in> set ''0123456789abcdef'')"

fun spec_tokens :: "string \<Rightarrow> string list" where
  "spec_tokens (a # b # c # d # e # f # rest) =
     (if a = CHR ''0'' \<and> b = CHR ''x'' \<and> is_lower_hex c \<and> is_lower_hex d \<and>
         e = CHR '','' \<and> f = CHR '' ''
      then [a, b, c, d, e, f] # spec_tokens rest
      else spec_tokens (b # c # d # e # f # rest))"
| "spec_tokens _ = []"







subsection \<open>A world to run the program in\<close>

text \<open>
  One file, \<^verbatim>\<open>shader.spv\<close>, with the given bytes; every path may be read and written;
  nothing has been printed and no file has been opened.
\<close>

definition example_world :: "byte list \<Rightarrow> world" where
  "example_world content =
     \<lparr>files = [''shader.spv'' \<mapsto> content], may_read = (\<lambda>_. True), may_write = (\<lambda>_. True),
      stdout = [], trace = []\<rparr>"

text \<open>
  A second world: other paths, a destination that already exists, permissions for these
  two paths only, and earlier output and an earlier \<^verbatim>\<open>open\<close> on record.
\<close>

definition other_world :: world where
  "other_world =
     \<lparr>files = [''build/frag.bin'' \<mapsto> [1, 2], ''out/frag.inl'' \<mapsto> [7, 7, 7]],
      may_read = (\<lambda>p. p = ''build/frag.bin''), may_write = (\<lambda>p. p = ''out/frag.inl''),
      stdout = ''earlier output'', trace = [OpenRead ''unrelated'']\<rparr>"

section \<open>Properties of the formatting\<close>

lemmas render_defs = inl_text_def token_def format_02x_def zero_pad_def hex_str.simps hex_digit_def




















section \<open>Properties of a run\<close>

text \<open>A conversion that returns has read the source and replaced the destination.\<close>

lemma convert_success:
  assumes "convert_spv_to_inl spv_file inl_file w = (Inr (), w')"
  shows "\<exists>data. files w spv_file = Some data \<and> may_read w spv_file \<and> may_write w inl_file \<and>
           w' = w\<lparr>trace := trace w @ [OpenRead spv_file, OpenWrite inl_file],
                  files := (files w)(inl_file \<mapsto> encode (write_loop 0 data []))\<rparr>"
  using assms
  by (auto simp: convert_spv_to_inl_def open_rb_def open_w_def close_w_def Let_def
      split: option.splits if_splits)

lemma convert_run:
  assumes "files w spv_file = Some data" "may_read w spv_file" "may_write w inl_file"
  shows "convert_spv_to_inl spv_file inl_file w =
           (Inr (), w\<lparr>trace := trace w @ [OpenRead spv_file, OpenWrite inl_file],
                  files := (files w)(inl_file \<mapsto> encode (write_loop 0 data []))\<rparr>)"
  using assms
  by (simp add: convert_spv_to_inl_def open_rb_def open_w_def close_w_def Let_def)

lemma convert_output:
  assumes "files w spv_file = Some B" "convert_spv_to_inl spv_file inl_file w = (Inr (), w')"
  shows "files w' inl_file = Some (encode (inl_text B))"
  using convert_success [OF assms(2)] assms(1) by (auto simp: inl_text_def)

lemma example_source: "files (example_world B) ''shader.spv'' = Some B"
  by (simp add: example_world_def)

lemma example_ok: "fst (convert_spv_to_inl ''shader.spv'' inl_file (example_world B)) = Inr ()"
  by (simp add: convert_run example_world_def)

lemma example_run:
  "convert_spv_to_inl ''shader.spv'' inl_file (example_world B) =
     (Inr (), snd (convert_spv_to_inl ''shader.spv'' inl_file (example_world B)))"
  using example_ok [of inl_file B] by (simp add: prod_eq_iff)

lemma other_source: "files other_world ''build/frag.bin'' = Some [1, 2]"
  by (simp add: other_world_def)

lemma other_ok:
  "fst (convert_spv_to_inl ''build/frag.bin'' ''out/frag.inl'' other_world) = Inr ()"
  by (simp add: convert_run other_world_def)

lemma other_run:
  "convert_spv_to_inl ''build/frag.bin'' ''out/frag.inl'' other_world =
     (Inr (), snd (convert_spv_to_inl ''build/frag.bin'' ''out/frag.inl'' other_world))"
  using other_ok by (simp add: prod_eq_iff)

section \<open>The claims\<close>







text \<open>
  C4. Started with a number of arguments other than two, the program prints
  \<^verbatim>\<open>Usage: <program-name> <input.spv> <output.inl>\<close> to the standard output and ends with
  exit status 1; no file has been opened and no file has changed. (\<^verbatim>\<open>sys.argv\<close> of a
  running script is the program name followed by the arguments.)
\<close>

theorem usage_error:
  assumes "length args \<noteq> 2"
  shows "main (prog # args) w =
           (Inl (SystemExit 1),
            w\<lparr>stdout := stdout w @ ''Usage: '' @ prog @ '' <input.spv> <output.inl>'' @ ''\<newline>''\<rparr>) \<and>
         exit_status (fst (main (prog # args) w)) = 1 \<and>
         files (snd (main (prog # args) w)) = files w \<and>
         trace (snd (main (prog # args) w)) = trace w"
  using assms by (simp add: main_def print_def)

theorem usage_error_witness:
  "length ([] :: string list) \<noteq> 2 \<and> length [''a.spv''] \<noteq> 2 \<and> length [''a.spv'', ''a.inl'', ''extra''] \<noteq> 2 \<and>
   main [''convert_spv.py''] other_world =
     (Inl (SystemExit 1),
      other_world\<lparr>stdout := ''earlier output'' @ ''Usage: convert_spv.py <input.spv> <output.inl>'' @ ''\<newline>''\<rparr>) \<and>
   exit_status (fst (main [''convert_spv.py'', ''a.spv''] other_world)) = 1 \<and>
   files (snd (main [''convert_spv.py'', ''a.spv'', ''a.inl'', ''extra''] other_world)) = files other_world \<and>
   trace (snd (main [''convert_spv.py'', ''a.spv'', ''a.inl'', ''extra''] other_world)) = trace other_world"
proof -
  have h0: "length ([] :: string list) \<noteq> 2" by simp
  have h1: "length [''a.spv''] \<noteq> 2" by simp
  have h3: "length [''a.spv'', ''a.inl'', ''extra''] \<noteq> 2" by simp
  have s: "stdout other_world = ''earlier output''" by (simp add: other_world_def)
  show ?thesis
    using usage_error [OF h0, of "''convert_spv.py''" other_world]
      usage_error [OF h1, of "''convert_spv.py''" other_world]
      usage_error [OF h3, of "''convert_spv.py''" other_world]
    by (simp add: s)
qed

text \<open>
  C5. An empty input gives an empty output file: no token and no leading newline.
\<close>

theorem empty_input_empty_output:
  assumes "files w spv_file = Some []"
    and "convert_spv_to_inl spv_file inl_file w = (Inr (), w')"
  shows "files w' inl_file = Some [] \<and> inl_text [] = [] \<and> spec_tokens (inl_text []) = []"
  using convert_output [OF assms]
  by (simp add: inl_text_def encode_def)

theorem empty_input_empty_output_witness:
  "files (example_world []) ''shader.spv'' = Some [] \<and>
   fst (convert_spv_to_inl ''shader.spv'' ''shader.inl'' (example_world [])) = Inr () \<and>
   files (snd (convert_spv_to_inl ''shader.spv'' ''shader.inl'' (example_world []))) ''shader.inl'' =
     Some []"
  using empty_input_empty_output [OF example_source [where B = "[]"]
      example_run [where inl_file = "''shader.inl''" and B = "[]"]]
  by (simp add: example_source example_ok)

text \<open>
  C6. An input of the single byte 0 gives exactly the 11 characters newline, four spaces
  and \<^verbatim>\<open>0x00, \<close>.
\<close>

theorem single_zero_byte:
  assumes "files w spv_file = Some [0]"
    and "convert_spv_to_inl spv_file inl_file w = (Inr (), w')"
  shows "files w' inl_file = Some (encode ''\<newline>    0x00, '') \<and>
         inl_text [0] = ''\<newline>    0x00, '' \<and>
         length (inl_text [0]) = 11 \<and>
         encode ''\<newline>    0x00, '' = [10, 32, 32, 32, 32, 48, 120, 48, 48, 44, 32]"
proof -
  have text0: "inl_text [0] = ''\<newline>    0x00, ''"
    by (simp add: render_defs)
  show ?thesis
    using convert_output [OF assms] by (simp add: text0) (simp add: encode_def)
qed

theorem single_zero_byte_witness:
  "files (example_world [0]) ''shader.spv'' = Some [0] \<and>
   fst (convert_spv_to_inl ''shader.spv'' ''shader.inl'' (example_world [0])) = Inr () \<and>
   files (snd (convert_spv_to_inl ''shader.spv'' ''shader.inl'' (example_world [0]))) ''shader.inl'' =
     Some [10, 32, 32, 32, 32, 48, 120, 48, 48, 44, 32]"
  using single_zero_byte [OF example_source [where B = "[0]"]
      example_run [where inl_file = "''shader.inl''" and B = "[0]"]]
  by (simp add: example_source example_ok)

text \<open>
  C7. After a successful conversion the program prints
  \<^verbatim>\<open>Converted <input-path> to <output-path>\<close>, with the paths as given, and ends with
  exit status 0.
\<close>

theorem success_message:
  assumes "convert_spv_to_inl spv_file inl_file w = (Inr (), w1)"
  shows "main [prog, spv_file, inl_file] w =
           (Inr (),
            w1\<lparr>stdout := stdout w @ ''Converted '' @ spv_file @ '' to '' @ inl_file @ ''\<newline>''\<rparr>) \<and>
         exit_status (fst (main [prog, spv_file, inl_file] w)) = 0"
proof -
  from convert_success [OF assms] have "stdout w1 = stdout w" by auto
  then show ?thesis using assms by (simp add: main_def print_def)
qed

theorem success_message_witness:
  "fst (convert_spv_to_inl ''shader.spv'' ''shader.inl'' (example_world [0])) = Inr () \<and>
   fst (main [''convert_spv.py'', ''shader.spv'', ''shader.inl''] (example_world [0])) = Inr () \<and>
   stdout (snd (main [''convert_spv.py'', ''shader.spv'', ''shader.inl''] (example_world [0]))) =
     ''Converted shader.spv to shader.inl'' @ ''\<newline>'' \<and>
   exit_status (fst (main [''convert_spv.py'', ''shader.spv'', ''shader.inl''] (example_world [0]))) = 0"
  using success_message [OF example_run [where inl_file = "''shader.inl''" and B = "[0]"],
      where prog = "''convert_spv.py''"]
  by (simp add: example_ok) (simp add: example_world_def)

text \<open>
  C8. Determinism: the content of the destination after a conversion is a function of
  the input bytes alone. Two successful runs on the same bytes, whatever the worlds and
  the paths, leave the same content.
\<close>

theorem output_determined_by_input:
  assumes "files w1 spv1 = Some B" and "files w2 spv2 = Some B"
    and "convert_spv_to_inl spv1 inl1 w1 = (Inr (), w1')"
    and "convert_spv_to_inl spv2 inl2 w2 = (Inr (), w2')"
  shows "files w1' inl1 = files w2' inl2 \<and> files w1' inl1 = Some (encode (inl_text B))"
  using convert_output [OF assms(1) assms(3)] convert_output [OF assms(2) assms(4)]
  by simp

theorem output_determined_by_input_witness:
  "files (example_world [1, 2]) ''shader.spv'' = Some [1, 2] \<and>
   files other_world ''build/frag.bin'' = Some [1, 2] \<and>
   fst (convert_spv_to_inl ''shader.spv'' ''shader.inl'' (example_world [1, 2])) = Inr () \<and>
   fst (convert_spv_to_inl ''build/frag.bin'' ''out/frag.inl'' other_world) = Inr () \<and>
   files (snd (convert_spv_to_inl ''shader.spv'' ''shader.inl'' (example_world [1, 2]))) ''shader.inl'' =
   files (snd (convert_spv_to_inl ''build/frag.bin'' ''out/frag.inl'' other_world)) ''out/frag.inl''"
proof -
  have a: "files (example_world [1, 2]) ''shader.spv'' = Some [1, 2]"
    by (rule example_source)
  note b = other_source and c = other_run
  show ?thesis
    using output_determined_by_input [OF a b
        example_run [where inl_file = "''shader.inl''" and B = "[1, 2]"] c]
    by (simp add: a b example_ok other_ok)
qed




text \<open>
  C10. When the source does not exist or cannot be read, the conversion ends with the
  error after the one attempt to open the source: the destination has not been opened, and
  no file has changed.
\<close>

theorem source_failure_leaves_destination:
  assumes "files w spv_file = None \<or> \<not> may_read w spv_file"
  shows "convert_spv_to_inl spv_file inl_file w =
           (Inl OSError, w\<lparr>trace := trace w @ [OpenRead spv_file]\<rparr>) \<and>
         files (snd (convert_spv_to_inl spv_file inl_file w)) = files w \<and>
         trace (snd (convert_spv_to_inl spv_file inl_file w)) = trace w @ [OpenRead spv_file] \<and>
         main [prog, spv_file, inl_file] w = (Inl OSError, w\<lparr>trace := trace w @ [OpenRead spv_file]\<rparr>)"
  using assms
  by (auto simp: convert_spv_to_inl_def open_rb_def main_def Let_def split: option.splits)

theorem source_failure_leaves_destination_witness:
  "(files other_world ''missing.spv'' = None \<or> \<not> may_read other_world ''missing.spv'') \<and>
   (files other_world ''out/frag.inl'' = None \<or> \<not> may_read other_world ''out/frag.inl'') \<and>
   fst (convert_spv_to_inl ''missing.spv'' ''out/frag.inl'' other_world) = Inl OSError \<and>
   files (snd (convert_spv_to_inl ''missing.spv'' ''out/frag.inl'' other_world)) ''out/frag.inl'' =
     Some [7, 7, 7] \<and>
   trace (snd (convert_spv_to_inl ''out/frag.inl'' ''out/frag.inl'' other_world)) =
     [OpenRead ''unrelated'', OpenRead ''out/frag.inl'']"
proof -
  have a: "files other_world ''missing.spv'' = None \<or> \<not> may_read other_world ''missing.spv''"
    by (simp add: other_world_def)
  have b: "files other_world ''out/frag.inl'' = None \<or> \<not> may_read other_world ''out/frag.inl''"
    by (simp add: other_world_def)
  show ?thesis
    using source_failure_leaves_destination [OF a, of "''out/frag.inl''"]
      source_failure_leaves_destination [OF b, of "''out/frag.inl''"]
    by (simp add: a b) (simp add: other_world_def)
qed

end
